theory Spec2Isabelle
  imports Complex_Main
begin

section \<open>Battery simulation endpoint (Backend/main.py)\<close>

text \<open>
  The endpoint \<^verbatim>\<open>run_simulation\<close> computes on Python and NumPy double-precision
  numbers. They are modelled by \<^typ>\<open>real\<close>: every arithmetic operation is exact, there
  is no rounding, no overflow to infinity and no NaN. Python integers (\<^verbatim>\<open>int\<close> fields of
  the request) are \<^typ>\<open>int\<close>. Console logging (\<^verbatim>\<open>print_section\<close>) has no effect on
  the result and is left out.

  One division of the source has a divisor that can be 0 without an exception: the NumPy
  scalar division by \<^verbatim>\<open>total_capacity_ah\<close> in the loop, which yields an infinity or a
  NaN there. The reals have neither (the quotient is 0 in HOL), so a statement about the
  value of that quotient assumes a total capacity other than 0.
\<close>

subsection \<open>Request data (the pydantic models)\<close>

text \<open>
  Field names are the source's, but for those that several models share or that clash with
  a constant of HOL: \<^verbatim>\<open>id\<close> and \<^verbatim>\<open>name\<close> carry the model's name in front,
  \<^verbatim>\<open>DriveConfig.type\<close> is \<open>drive_type\<close>, and the two \<^verbatim>\<open>enabled\<close> flags are
  \<open>thermal_enabled\<close> and \<open>life_enabled\<close>.
\<close>

record Cell =
  cell_id :: string
  cell_name :: string
  voltage :: real
  capacity :: real

record PackConfig =
  cell :: Cell
  seriesCount :: int
  parallelCount :: int
  totalEnergy :: real

record DriveCycle =
  cycle_id :: string
  cycle_name :: string
  duration :: int

record CsvRow =
  time_s :: real
  current_a :: real
  speed_kmh :: "real option"

record DriveConfig =
  drive_type :: string
  cycle :: "DriveCycle option"
  csvData :: "CsvRow list option"
  startingSoc :: real
  ambientTemp :: real

record ElectricalConfig =
  model :: string

record ThermalConfig =
  thermal_enabled :: bool

record LifeConfig =
  life_enabled :: bool

record SimulationConfig =
  electrical :: ElectricalConfig
  thermal :: ThermalConfig
  life :: LifeConfig

record SimulationRequest =
  packConfig :: PackConfig
  driveConfig :: DriveConfig
  simulationConfig :: SimulationConfig

subsection \<open>Exceptions\<close>

text \<open>
  The exceptions the body can raise. \<^verbatim>\<open>HTTPException(status_code, detail)\<close> carries its
  status code and its detail; the handler at the end of \<^verbatim>\<open>run_simulation\<close> builds the
  detail from \<^verbatim>\<open>str(e)\<close> of the exception it caught, which is kept symbolic as
  \<open>Str e\<close>.
\<close>

datatype exn =
    ZeroDivisionError
  | ValueError
  | IndexError
  | HTTPException nat detail
and detail =
    Text string
  | Str exn

fun status_code :: "exn \<Rightarrow> nat option" where
  "status_code (HTTPException c d) = Some c"
| "status_code e = None"

subsection \<open>The random source\<close>

text \<open>
  NumPy's global random generator is an input of the model: \<open>normal_draw rnd k\<close> is the
  \<open>k\<close>-th value of the array returned by \<^verbatim>\<open>np.random.normal(0, 15, points)\<close>, and
  \<open>rand_draw rnd\<close> is the value returned by \<^verbatim>\<open>np.random.rand()\<close>, which lies in
  \<open>[0, 1)\<close>.
\<close>

record random_source =
  normal_draw :: "nat \<Rightarrow> real"
  rand_draw :: real

subsection \<open>Results\<close>

text \<open>
  One dictionary of \<^verbatim>\<open>time_series_data\<close>, with the keys \<^verbatim>\<open>time\<close>, \<^verbatim>\<open>soc\<close>,
  \<^verbatim>\<open>voltage\<close>, \<^verbatim>\<open>current\<close>, \<^verbatim>\<open>temperature\<close> and \<^verbatim>\<open>power\<close>.
\<close>

record TimeSeriesPoint =
  pt_time :: real
  pt_soc :: real
  pt_voltage :: real
  pt_current :: real
  pt_temperature :: real
  pt_power :: real

text \<open>
  The \<^verbatim>\<open>summary\<close> dictionary. The source renders \<^verbatim>\<open>finalSoc\<close>, \<^verbatim>\<open>totalEnergy\<close>,
  \<^verbatim>\<open>maxTemperature\<close> and \<^verbatim>\<open>stateOfHealth\<close> as fixed-point text
  (\<^verbatim>\<open>f"{x:.1f}"\<close>); the fields below hold the number handed to the formatter.
  \<open>consumedEnergy\<close> is the key \<^verbatim>\<open>totalEnergy\<close> of the summary.
\<close>

record Summary =
  finalSoc :: real
  consumedEnergy :: real
  maxTemperature :: real
  efficiency :: string
  stateOfHealth :: "real option"

record Results =
  summary :: Summary
  timeSeries :: "TimeSeriesPoint list"

subsection \<open>Library functions used by the endpoint\<close>

text \<open>Python's \<^verbatim>\<open>int(x)\<close> on a float truncates towards zero.\<close>

definition py_int :: "real \<Rightarrow> int" where
  "py_int x = (if 0 \<le> x then \<lfloor>x\<rfloor> else \<lceil>x\<rceil>)"

text \<open>
  \<^verbatim>\<open>np.linspace(start, stop, num)\<close>: \<open>num\<close> samples, the \<open>k\<close>-th being
  \<open>start + k * step\<close> with \<open>step = (stop - start) / (num - 1)\<close>, and the last one set to
  \<open>stop\<close> when there is more than one; a single sample is \<open>start\<close>; a negative
  \<open>num\<close> raises \<^verbatim>\<open>ValueError\<close>.
\<close>

definition linspace :: "real \<Rightarrow> real \<Rightarrow> int \<Rightarrow> exn + real list" where
  "linspace start stop num =
     (if num < 0 then Inl ValueError
      else
        let dv = num - 1;
            delta = stop - start;
            y = map (\<lambda>k. if 0 < dv then real k * (delta / of_int dv) + start
                          else real k * delta + start) [0..<nat num]
        in Inr (if 1 < num then y[nat num - 1 := stop] else y))"

text \<open>The truth value of an optional list: \<^verbatim>\<open>None\<close> and \<^verbatim>\<open>[]\<close> are false.\<close>

fun truthy :: "'a list option \<Rightarrow> bool" where
  "truthy None = False"
| "truthy (Some xs) = (xs \<noteq> [])"

fun rows_of :: "'a list option \<Rightarrow> 'a list" where
  "rows_of None = []"
| "rows_of (Some xs) = xs"

subsection \<open>Load profile (lines 111 to 125)\<close>

text \<open>
  The \<^verbatim>\<open>elif drive.cycle\<close> branch. The statements run in the source's order:
  \<^verbatim>\<open>np.linspace\<close> first (it raises on a negative sample count), then the division by
  \<^verbatim>\<open>duration\<close>, a Python float divided by a Python int, which raises
  \<^verbatim>\<open>ZeroDivisionError\<close> when the duration is 0.
\<close>

text \<open>Line 118: \<^verbatim>\<open>points = int(duration / 2)\<close>.\<close>

definition sample_count :: "int \<Rightarrow> int" where
  "sample_count dur = py_int (of_int dur / 2)"

definition synthetic_profile ::
  "random_source \<Rightarrow> PackConfig \<Rightarrow> DriveCycle \<Rightarrow> exn + (real list \<times> real list)" where
  "synthetic_profile rnd pack cyc =
     (let dur = duration cyc;
          points = sample_count dur
      in case linspace 0 (of_int dur) points of
           Inl e \<Rightarrow> Inl e
         | Inr time_points \<Rightarrow>
             if dur = 0 then Inl ZeroDivisionError
             else
               let base_current = (totalEnergy pack * 10) / of_int dur;
                   noise = map (normal_draw rnd) [0..<nat points];
                   sine_wave = map (\<lambda>t. 20 * sin (t / 60)) time_points;
                   current_profile =
                     map2 (+) (map (\<lambda>n. base_current + n) noise) sine_wave
               in Inr (time_points, current_profile))"

definition load_profile ::
  "random_source \<Rightarrow> PackConfig \<Rightarrow> DriveConfig \<Rightarrow> exn + (real list \<times> real list)" where
  "load_profile rnd pack drive =
     (if drive_type drive = ''upload'' \<and> truthy (csvData drive) then
        Inr (map time_s (rows_of (csvData drive)),
             map current_a (rows_of (csvData drive)))
      else
        case cycle drive of
          Some cyc \<Rightarrow> synthetic_profile rnd pack cyc
        | None \<Rightarrow> Inl (HTTPException 400 (Text ''Invalid drive cycle configuration.'')))"

subsection \<open>Step-by-step simulation (lines 130 to 152)\<close>

text \<open>The three arrays \<^verbatim>\<open>soc\<close>, \<^verbatim>\<open>voltage\<close> and \<^verbatim>\<open>temperature\<close>.\<close>

record arrays =
  soc_arr :: "real list"
  voltage_arr :: "real list"
  temperature_arr :: "real list"

text \<open>
  One iteration of the loop, for an index \<open>i\<close> of \<^verbatim>\<open>range(1, points)\<close>; every array
  has \<open>points\<close> elements, so no index is out of range. \<^verbatim>\<open>continue\<close> leaves the
  arrays as they are.
\<close>

definition step ::
  "PackConfig \<Rightarrow> DriveConfig \<Rightarrow> SimulationConfig \<Rightarrow> real list \<Rightarrow> real list \<Rightarrow> real \<Rightarrow>
   nat \<Rightarrow> arrays \<Rightarrow> arrays" where
  "step pack drive sim time_points current_profile total_capacity_ah i a =
     (let dt = time_points ! i - time_points ! (i - 1)
      in if dt \<le> 0 then a
         else
           let soc_delta = (current_profile ! i * dt / 3600) / total_capacity_ah * 100;
               soc' = (soc_arr a)[i := max 0 (soc_arr a ! (i - 1) - soc_delta)];
               voltage' = (voltage_arr a)
                 [i := (voltage (cell pack) * of_int (seriesCount pack))
                         * (0.9 + 0.1 * (soc' ! i / 100))
                       - (current_profile ! i * 0.05)];
               temperature' =
                 (if thermal_enabled (thermal sim) then
                    let heat_gen = (current_profile ! i)\<^sup>2 * 0.002;
                        heat_dissipation =
                          (temperature_arr a ! (i - 1) - ambientTemp drive) * 0.01;
                        temp_delta = (heat_gen - heat_dissipation) * dt / 100
                    in (temperature_arr a)[i := temperature_arr a ! (i - 1) + temp_delta]
                  else (temperature_arr a)[i := ambientTemp drive])
           in \<lparr>soc_arr = soc', voltage_arr = voltage', temperature_arr = temperature'\<rparr>)"

text \<open>
  The arrays start as \<^verbatim>\<open>np.zeros(points)\<close>; writing index 0 of an empty array raises
  \<^verbatim>\<open>IndexError\<close>.
\<close>

definition integrate ::
  "PackConfig \<Rightarrow> DriveConfig \<Rightarrow> SimulationConfig \<Rightarrow> real list \<Rightarrow> real list \<Rightarrow> exn + arrays" where
  "integrate pack drive sim time_points current_profile =
     (let points = length time_points;
          zeros = replicate points (0::real)
      in if points = 0 then Inl IndexError
         else
           let init = \<lparr>soc_arr = zeros[0 := startingSoc drive],
                       voltage_arr = zeros[0 := voltage (cell pack) * of_int (seriesCount pack)],
                       temperature_arr = zeros[0 := ambientTemp drive]\<rparr>;
               total_capacity_ah = capacity (cell pack) * of_int (parallelCount pack)
           in Inr (fold (step pack drive sim time_points current_profile total_capacity_ah)
                     [1..<points] init))"

subsection \<open>Results (lines 163 to 179)\<close>

definition aggregate ::
  "random_source \<Rightarrow> PackConfig \<Rightarrow> DriveConfig \<Rightarrow> SimulationConfig \<Rightarrow> real list \<Rightarrow> real list \<Rightarrow>
   arrays \<Rightarrow> Results" where
  "aggregate rnd pack drive sim time_points current_profile a =
     (let time_series_data =
            map (\<lambda>(t, s, v, c, temp).
                   \<lparr>pt_time = t, pt_soc = s, pt_voltage = v, pt_current = c,
                    pt_temperature = temp, pt_power = (v * c) / 1000\<rparr>)
              (zip time_points (zip (soc_arr a) (zip (voltage_arr a)
                 (zip current_profile (temperature_arr a)))));
          final_soc = (case soc_arr a of [] \<Rightarrow> 0 | s # ss \<Rightarrow> last (s # ss));
          max_temp = (case temperature_arr a of [] \<Rightarrow> 0 | t # ts \<Rightarrow> fold max ts t)
      in \<lparr>summary =
            \<lparr>finalSoc = final_soc,
             consumedEnergy = totalEnergy pack * (startingSoc drive - final_soc) / 100,
             maxTemperature = max_temp,
             efficiency = ''92.3'',
             stateOfHealth =
               (if life_enabled (life sim) then Some (99.5 - rand_draw rnd * 0.5) else None)\<rparr>,
          timeSeries = time_series_data\<rparr>)"

subsection \<open>The endpoint\<close>

text \<open>The body of the \<^verbatim>\<open>try\<close> block.\<close>

definition simulation_body :: "random_source \<Rightarrow> SimulationRequest \<Rightarrow> exn + Results" where
  "simulation_body rnd request =
     (let pack = packConfig request;
          drive = driveConfig request;
          sim = simulationConfig request
      in case load_profile rnd pack drive of
           Inl e \<Rightarrow> Inl e
         | Inr (time_points, current_profile) \<Rightarrow>
             (case integrate pack drive sim time_points current_profile of
                Inl e \<Rightarrow> Inl e
              | Inr a \<Rightarrow> Inr (aggregate rnd pack drive sim time_points current_profile a)))"

text \<open>
  \<^verbatim>\<open>except Exception as e: raise HTTPException(status_code=500, detail=str(e))\<close>:
  every exception of the body, \<^verbatim>\<open>HTTPException\<close> included (it is a subclass of
  \<^verbatim>\<open>Exception\<close>), is caught and replaced.
\<close>

definition run_simulation :: "random_source \<Rightarrow> SimulationRequest \<Rightarrow> exn + Results" where
  "run_simulation rnd request =
     (case simulation_body rnd request of
        Inl e \<Rightarrow> Inl (HTTPException 500 (Str e))
      | Inr results \<Rightarrow> Inr results)"

subsection \<open>Example requests\<close>

text \<open>
  The pack of the specification's example: a 3.7 V, 5 Ah cell, 10 in series, 4 in parallel.
\<close>

definition example_pack :: PackConfig where
  "example_pack =
     \<lparr>cell = \<lparr>cell_id = ''c1'', cell_name = ''cell'', voltage = 3.7, capacity = 5\<rparr>,
      seriesCount = 10, parallelCount = 4, totalEnergy = 10\<rparr>"

definition sample :: "real \<Rightarrow> real \<Rightarrow> CsvRow" where
  "sample t c = \<lparr>time_s = t, current_a = c, speed_kmh = None\<rparr>"

definition toggles :: "bool \<Rightarrow> bool \<Rightarrow> SimulationConfig" where
  "toggles th lf =
     \<lparr>electrical = \<lparr>model = ''ecm''\<rparr>,
      thermal = \<lparr>thermal_enabled = th\<rparr>,
      life = \<lparr>life_enabled = lf\<rparr>\<rparr>"

text \<open>An upload of the given samples, starting at 100 % and 25 degrees.\<close>

definition replay_drive :: "CsvRow list \<Rightarrow> DriveConfig" where
  "replay_drive rows =
     \<lparr>drive_type = ''upload'', cycle = None, csvData = Some rows,
      startingSoc = 100, ambientTemp = 25\<rparr>"

definition replay_request :: "CsvRow list \<Rightarrow> bool \<Rightarrow> bool \<Rightarrow> SimulationRequest" where
  "replay_request rows th lf =
     \<lparr>packConfig = example_pack, driveConfig = replay_drive rows,
      simulationConfig = toggles th lf\<rparr>"

text \<open>A predefined cycle of the given duration, with no samples.\<close>

definition cycle_drive :: "int \<Rightarrow> DriveConfig" where
  "cycle_drive d =
     \<lparr>drive_type = ''cycle'',
      cycle = Some \<lparr>cycle_id = ''u'', cycle_name = ''urban'', duration = d\<rparr>,
      csvData = None, startingSoc = 100, ambientTemp = 25\<rparr>"

definition cycle_request :: "int \<Rightarrow> SimulationRequest" where
  "cycle_request d =
     \<lparr>packConfig = example_pack, driveConfig = cycle_drive d,
      simulationConfig = toggles False False\<rparr>"

text \<open>A request with neither samples nor a cycle.\<close>

definition no_source_request :: SimulationRequest where
  "no_source_request =
     \<lparr>packConfig = example_pack,
      driveConfig = \<lparr>drive_type = ''cycle'', cycle = None, csvData = None,
                     startingSoc = 100, ambientTemp = 25\<rparr>,
      simulationConfig = toggles False False\<rparr>"

text \<open>Two random sources that differ in every draw.\<close>

definition fixed_random :: random_source where
  "fixed_random = \<lparr>normal_draw = (\<lambda>k. 0), rand_draw = 0\<rparr>"

definition other_random :: random_source where
  "other_random = \<lparr>normal_draw = (\<lambda>k. 7), rand_draw = 1 / 2\<rparr>"

text \<open>
  The response to the upload \<open>[(0 s, 10 A), (36 s, 10 A)]\<close> on the example pack with the
  thermal model off: 0.1 Ah of 20 Ah is drawn, half a percent.
\<close>

definition gentle_result :: "real option \<Rightarrow> Results" where
  "gentle_result soh =
     \<lparr>summary = \<lparr>finalSoc = 99.5, consumedEnergy = 0.05, maxTemperature = 25,
                  efficiency = ''92.3'', stateOfHealth = soh\<rparr>,
      timeSeries =
        [\<lparr>pt_time = 0, pt_soc = 100, pt_voltage = 37, pt_current = 10,
          pt_temperature = 25, pt_power = 0.37\<rparr>,
         \<lparr>pt_time = 36, pt_soc = 99.5, pt_voltage = 36.4815, pt_current = 10,
          pt_temperature = 25, pt_power = 0.364815\<rparr>]\<rparr>"

text \<open>
  The response to the upload \<open>[(0 s, 10 A), (3600 s, 100 A)]\<close>: the step would draw
  500 % of the capacity, and the floor holds the state of charge at 0.
\<close>

definition drained_result :: Results where
  "drained_result =
     \<lparr>summary = \<lparr>finalSoc = 0, consumedEnergy = 10, maxTemperature = 25,
                  efficiency = ''92.3'', stateOfHealth = None\<rparr>,
      timeSeries =
        [\<lparr>pt_time = 0, pt_soc = 100, pt_voltage = 37, pt_current = 10,
          pt_temperature = 25, pt_power = 0.37\<rparr>,
         \<lparr>pt_time = 3600, pt_soc = 0, pt_voltage = 28.3, pt_current = 100,
          pt_temperature = 25, pt_power = 2.83\<rparr>]\<rparr>"

section \<open>Proofs\<close>

lemmas endpoint_defs =
  run_simulation_def simulation_body_def load_profile_def synthetic_profile_def
  sample_count_def py_int_def linspace_def integrate_def step_def aggregate_def Let_def

subsection \<open>The loop\<close>

text \<open>A step keeps the lengths of the arrays and writes index \<open>i\<close> only.\<close>

lemma step_length:
  "length (soc_arr (step pack drive sim tp cp cap i a)) = length (soc_arr a)"
  "length (voltage_arr (step pack drive sim tp cp cap i a)) = length (voltage_arr a)"
  "length (temperature_arr (step pack drive sim tp cp cap i a)) = length (temperature_arr a)"
  by (simp_all add: step_def Let_def)

lemma step_other:
  assumes "j \<noteq> i"
  shows "soc_arr (step pack drive sim tp cp cap i a) ! j = soc_arr a ! j"
    and "voltage_arr (step pack drive sim tp cp cap i a) ! j = voltage_arr a ! j"
    and "temperature_arr (step pack drive sim tp cp cap i a) ! j = temperature_arr a ! j"
  using assms by (simp_all add: step_def Let_def)

lemma loop_length:
  "length (soc_arr (fold (step pack drive sim tp cp cap) is a)) = length (soc_arr a)
   \<and> length (voltage_arr (fold (step pack drive sim tp cp cap) is a)) = length (voltage_arr a)
   \<and> length (temperature_arr (fold (step pack drive sim tp cp cap) is a)) = length (temperature_arr a)"
  by (induction "is" arbitrary: a) (simp_all add: step_length)

lemma loop_other:
  "j \<notin> set is \<Longrightarrow>
     soc_arr (fold (step pack drive sim tp cp cap) is a) ! j = soc_arr a ! j
   \<and> voltage_arr (fold (step pack drive sim tp cp cap) is a) ! j = voltage_arr a ! j
   \<and> temperature_arr (fold (step pack drive sim tp cp cap) is a) ! j = temperature_arr a ! j"
  by (induction "is" arbitrary: a) (simp_all add: step_other)

lemma loop_split:
  assumes "Suc 0 \<le> i" "i < n"
  shows "fold f [Suc 0..<n] a = fold f [Suc i..<n] (f i (fold f [Suc 0..<i] a))"
proof -
  have "[Suc 0..<i + (n - i)] = [Suc 0..<i] @ [i..<i + (n - i)]"
    using assms(1) by (rule upt_add_eq_append)
  moreover have "[i..<n] = i # [Suc i..<n]"
    using assms(2) by (rule upt_conv_Cons)
  ultimately have "[Suc 0..<n] = [Suc 0..<i] @ i # [Suc i..<n]"
    using assms(2) by simp
  then show ?thesis by simp
qed

text \<open>What the finished loop holds at an index: what the step at that index wrote.\<close>

lemma loop_at:
  assumes "Suc 0 \<le> i" "i < n"
  shows "soc_arr (fold (step pack drive sim tp cp cap) [Suc 0..<n] a) ! i
           = soc_arr (step pack drive sim tp cp cap i
               (fold (step pack drive sim tp cp cap) [Suc 0..<i] a)) ! i"
    and "voltage_arr (fold (step pack drive sim tp cp cap) [Suc 0..<n] a) ! i
           = voltage_arr (step pack drive sim tp cp cap i
               (fold (step pack drive sim tp cp cap) [Suc 0..<i] a)) ! i"
    and "temperature_arr (fold (step pack drive sim tp cp cap) [Suc 0..<n] a) ! i
           = temperature_arr (step pack drive sim tp cp cap i
               (fold (step pack drive sim tp cp cap) [Suc 0..<i] a)) ! i"
proof -
  have a: "i \<notin> set [Suc i..<n]" by simp
  show "soc_arr (fold (step pack drive sim tp cp cap) [Suc 0..<n] a) ! i
           = soc_arr (step pack drive sim tp cp cap i
               (fold (step pack drive sim tp cp cap) [Suc 0..<i] a)) ! i"
    and "voltage_arr (fold (step pack drive sim tp cp cap) [Suc 0..<n] a) ! i
           = voltage_arr (step pack drive sim tp cp cap i
               (fold (step pack drive sim tp cp cap) [Suc 0..<i] a)) ! i"
    and "temperature_arr (fold (step pack drive sim tp cp cap) [Suc 0..<n] a) ! i
           = temperature_arr (step pack drive sim tp cp cap i
               (fold (step pack drive sim tp cp cap) [Suc 0..<i] a)) ! i"
    by (simp_all only: loop_split [OF assms] loop_other [OF a])
qed

text \<open>The index before it still holds what the loop had written when it got there.\<close>

lemma loop_before:
  assumes "Suc 0 \<le> i" "i < n"
  shows "soc_arr (fold (step pack drive sim tp cp cap) [Suc 0..<n] a) ! (i - 1)
           = soc_arr (fold (step pack drive sim tp cp cap) [Suc 0..<i] a) ! (i - 1)"
    and "voltage_arr (fold (step pack drive sim tp cp cap) [Suc 0..<n] a) ! (i - 1)
           = voltage_arr (fold (step pack drive sim tp cp cap) [Suc 0..<i] a) ! (i - 1)"
    and "temperature_arr (fold (step pack drive sim tp cp cap) [Suc 0..<n] a) ! (i - 1)
           = temperature_arr (fold (step pack drive sim tp cp cap) [Suc 0..<i] a) ! (i - 1)"
proof -
  have b: "i - 1 \<notin> set [Suc i..<n]" by auto
  have c: "i - 1 \<noteq> i" using assms(1) by simp
  show "soc_arr (fold (step pack drive sim tp cp cap) [Suc 0..<n] a) ! (i - 1)
           = soc_arr (fold (step pack drive sim tp cp cap) [Suc 0..<i] a) ! (i - 1)"
    and "voltage_arr (fold (step pack drive sim tp cp cap) [Suc 0..<n] a) ! (i - 1)
           = voltage_arr (fold (step pack drive sim tp cp cap) [Suc 0..<i] a) ! (i - 1)"
    and "temperature_arr (fold (step pack drive sim tp cp cap) [Suc 0..<n] a) ! (i - 1)
           = temperature_arr (fold (step pack drive sim tp cp cap) [Suc 0..<i] a) ! (i - 1)"
    by (simp_all only: loop_split [OF assms] loop_other [OF b] step_other [OF c])
qed

lemma step_nonneg:
  assumes "\<forall>x \<in> set (soc_arr a). 0 \<le> x"
  shows "\<forall>x \<in> set (soc_arr (step pack drive sim tp cp cap i a)). 0 \<le> x"
proof (cases "tp ! i - tp ! (i - 1) \<le> 0")
  case True
  then show ?thesis using assms by (simp add: step_def)
next
  case False
  then obtain v where eq:
    "soc_arr (step pack drive sim tp cp cap i a) = (soc_arr a)[i := max 0 v]"
    by (simp add: step_def Let_def)
  have "set ((soc_arr a)[i := max 0 v]) \<subseteq> insert (max 0 v) (set (soc_arr a))"
    by (rule set_update_subset_insert)
  then show ?thesis unfolding eq using assms by auto
qed

lemma loop_nonneg:
  "\<forall>x \<in> set (soc_arr a). 0 \<le> x \<Longrightarrow>
   \<forall>x \<in> set (soc_arr (fold (step pack drive sim tp cp cap) is a)). 0 \<le> x"
proof (induction "is" arbitrary: a)
  case Nil
  then show ?case by simp
next
  case (Cons i "is")
  have "\<forall>x \<in> set (soc_arr (step pack drive sim tp cp cap i a)). 0 \<le> x"
    using Cons.prems by (rule step_nonneg)
  then show ?case using Cons.IH by simp
qed

subsection \<open>The integrator\<close>

lemma step_writes:
  assumes "0 < tp ! i - tp ! (i - 1)"
    and "i < length (soc_arr a)" and "i < length (voltage_arr a)"
  shows "soc_arr (step pack drive sim tp cp cap i a) ! i
           = max 0 (soc_arr a ! (i - 1) - (cp ! i * (tp ! i - tp ! (i - 1)) / 3600) / cap * 100)"
    and "voltage_arr (step pack drive sim tp cp cap i a) ! i
           = (voltage (cell pack) * of_int (seriesCount pack))
               * (0.9 + 0.1 * (soc_arr (step pack drive sim tp cp cap i a) ! i / 100))
             - cp ! i * 0.05"
  using assms by (simp_all add: step_def Let_def)

lemma integrate_Inr:
  assumes "integrate pack drive sim tp cp = Inr a"
  shows "tp \<noteq> []"
    and "a = fold (step pack drive sim tp cp (capacity (cell pack) * of_int (parallelCount pack)))
               [Suc 0..<length tp]
               \<lparr>soc_arr = (replicate (length tp) 0)[0 := startingSoc drive],
                voltage_arr = (replicate (length tp) 0)
                  [0 := voltage (cell pack) * of_int (seriesCount pack)],
                temperature_arr = (replicate (length tp) 0)[0 := ambientTemp drive]\<rparr>"
  using assms by (auto simp add: integrate_def Let_def split: if_splits)

lemma integrate_lengths:
  assumes "integrate pack drive sim tp cp = Inr a"
  shows "length (soc_arr a) = length tp"
    and "length (voltage_arr a) = length tp"
    and "length (temperature_arr a) = length tp"
  by (simp_all add: integrate_Inr(2) [OF assms] loop_length)

lemma integrate_recurrence:
  assumes ok: "integrate pack drive sim tp cp = Inr a"
    and i: "1 \<le> i" "i < length tp"
    and dt: "0 < tp ! i - tp ! (i - 1)"
  shows "soc_arr a ! i
           = max 0 (soc_arr a ! (i - 1)
               - (cp ! i * (tp ! i - tp ! (i - 1)) / 3600)
                   / (capacity (cell pack) * of_int (parallelCount pack)) * 100)"
    and "voltage_arr a ! i
           = (voltage (cell pack) * of_int (seriesCount pack))
               * (0.9 + 0.1 * (soc_arr a ! i / 100))
             - cp ! i * 0.05"
proof -
  let ?cap = "capacity (cell pack) * of_int (parallelCount pack)"
  let ?init = "\<lparr>soc_arr = (replicate (length tp) 0)[0 := startingSoc drive],
                voltage_arr = (replicate (length tp) 0)
                  [0 := voltage (cell pack) * of_int (seriesCount pack)],
                temperature_arr = (replicate (length tp) 0)[0 := ambientTemp drive]\<rparr>"
  let ?f = "step pack drive sim tp cp ?cap"
  let ?b = "fold ?f [Suc 0..<i] ?init"
  have a: "a = fold ?f [Suc 0..<length tp] ?init"
    using ok by (rule integrate_Inr(2))
  have i': "Suc 0 \<le> i" using i(1) by simp
  have len: "i < length (soc_arr ?b)" "i < length (voltage_arr ?b)"
    using i(2) by (simp_all add: loop_length)
  have s: "soc_arr a ! i = soc_arr (?f i ?b) ! i"
    and v: "voltage_arr a ! i = voltage_arr (?f i ?b) ! i"
    unfolding a using i' i(2) by (rule loop_at)+
  have p: "soc_arr a ! (i - 1) = soc_arr ?b ! (i - 1)"
    unfolding a using i' i(2) by (rule loop_before)
  show "soc_arr a ! i
           = max 0 (soc_arr a ! (i - 1)
               - (cp ! i * (tp ! i - tp ! (i - 1)) / 3600) / ?cap * 100)"
    unfolding s p using dt len by (rule step_writes(1))
  show "voltage_arr a ! i
           = (voltage (cell pack) * of_int (seriesCount pack))
               * (0.9 + 0.1 * (soc_arr a ! i / 100))
             - cp ! i * 0.05"
    unfolding s v using dt len by (rule step_writes(2))
qed

lemma integrate_nonneg:
  assumes ok: "integrate pack drive sim tp cp = Inr a"
    and start: "0 \<le> startingSoc drive"
  shows "\<forall>x \<in> set (soc_arr a). 0 \<le> x"
proof -
  have "set ((replicate (length tp) (0::real))[0 := startingSoc drive])
          \<subseteq> insert (startingSoc drive) (set (replicate (length tp) 0))"
    by (rule set_update_subset_insert)
  then have "\<forall>x \<in> set ((replicate (length tp) (0::real))[0 := startingSoc drive]). 0 \<le> x"
    using start by auto
  then show ?thesis
    unfolding integrate_Inr(2) [OF ok] by (intro loop_nonneg) simp
qed

subsection \<open>From the arrays to the response\<close>

lemma linspace_length: "linspace start stop num = Inr ys \<Longrightarrow> length ys = nat num"
  by (auto simp add: linspace_def Let_def split: if_splits)

lemma synthetic_profile_lengths:
  assumes "synthetic_profile rnd pack cyc = Inr (tp, cp)"
  shows "length tp = nat (sample_count (duration cyc))"
    and "length cp = nat (sample_count (duration cyc))"
  using assms
  by (auto simp add: synthetic_profile_def Let_def linspace_length split: sum.splits if_splits)

lemma load_profile_lengths:
  assumes "load_profile rnd pack drive = Inr (tp, cp)"
  shows "length cp = length tp"
  using assms
  by (auto simp add: load_profile_def synthetic_profile_lengths split: if_splits option.splits)

lemma aggregate_timeSeries:
  assumes "length cp = length tp" "length (soc_arr a) = length tp"
    "length (voltage_arr a) = length tp" "length (temperature_arr a) = length tp"
  shows "length (timeSeries (aggregate rnd pack drive sim tp cp a)) = length tp"
    and "i < length tp \<Longrightarrow> timeSeries (aggregate rnd pack drive sim tp cp a) ! i
          = \<lparr>pt_time = tp ! i, pt_soc = soc_arr a ! i, pt_voltage = voltage_arr a ! i,
             pt_current = cp ! i, pt_temperature = temperature_arr a ! i,
             pt_power = (voltage_arr a ! i * cp ! i) / 1000\<rparr>"
  using assms by (simp_all add: aggregate_def Let_def)

lemma run_simulation_Inr:
  assumes "run_simulation rnd request = Inr results"
  obtains tp cp a where
    "load_profile rnd (packConfig request) (driveConfig request) = Inr (tp, cp)"
    "integrate (packConfig request) (driveConfig request) (simulationConfig request) tp cp = Inr a"
    "results = aggregate rnd (packConfig request) (driveConfig request)
                 (simulationConfig request) tp cp a"
  using assms
  by (auto simp add: run_simulation_def simulation_body_def Let_def split: sum.splits prod.splits)

subsection \<open>The synthetic profile\<close>

lemma sample_count_nonneg:
  assumes "0 \<le> d"
  shows "sample_count d = d div 2" and "sample_count d = \<lfloor>real_of_int d / 2\<rfloor>"
proof -
  have "\<lfloor>real_of_int d / real_of_int 2\<rfloor> = d div 2"
    by (rule floor_divide_of_int_eq)
  then have f: "\<lfloor>real_of_int d / 2\<rfloor> = d div 2" by simp
  show "sample_count d = \<lfloor>real_of_int d / 2\<rfloor>"
    using assms by (simp add: sample_count_def py_int_def)
  then show "sample_count d = d div 2" using f by simp
qed

lemma linspace_nth:
  assumes "linspace start stop num = Inr ys" and "k < nat num"
  shows "ys ! k = (if num = 1 then start
                   else real k * ((stop - start) / real_of_int (num - 1)) + start)"
proof (cases "num = 1")
  case True
  then show ?thesis using assms by (auto simp add: linspace_def Let_def)
next
  case False
  then have big: "1 < num" using assms(2) by simp
  define y where "y = map (\<lambda>k. real k * ((stop - start) / real_of_int (num - 1)) + start) [0..<nat num]"
  have ys: "ys = y[nat num - 1 := stop]"
    using assms(1) big by (auto simp add: linspace_def Let_def y_def split: if_splits)
  show ?thesis
  proof (cases "k = nat num - 1")
    case True
    have "real (nat num - 1) = real_of_int (num - 1)" using big by simp
    then have "real k * ((stop - start) / real_of_int (num - 1)) + start = stop"
      using big True by simp
    moreover have "ys ! k = stop"
      unfolding ys using True assms(2) by (simp add: y_def)
    ultimately show ?thesis using False by simp
  next
    case ne: False
    then have "ys ! k = y ! k" unfolding ys by simp
    then show ?thesis using False assms(2) by (simp add: y_def)
  qed
qed

lemma synthetic_profile_Inr:
  assumes "1 \<le> duration cyc"
  obtains tp where
    "linspace 0 (of_int (duration cyc)) (sample_count (duration cyc)) = Inr tp"
    "synthetic_profile rnd pack cyc
       = Inr (tp, map2 (+) (map (\<lambda>n. (totalEnergy pack * 10) / of_int (duration cyc) + n)
                              (map (normal_draw rnd) [0..<nat (sample_count (duration cyc))]))
                      (map (\<lambda>t. 20 * sin (t / 60)) tp))"
proof -
  have "0 \<le> sample_count (duration cyc)"
    using assms by (simp add: sample_count_nonneg(1))
  then obtain tp where
    tp: "linspace 0 (of_int (duration cyc)) (sample_count (duration cyc)) = Inr tp"
    by (simp add: linspace_def Let_def)
  have "synthetic_profile rnd pack cyc
       = Inr (tp, map2 (+) (map (\<lambda>n. (totalEnergy pack * 10) / of_int (duration cyc) + n)
                              (map (normal_draw rnd) [0..<nat (sample_count (duration cyc))]))
                      (map (\<lambda>t. 20 * sin (t / 60)) tp))"
    using assms by (simp add: synthetic_profile_def Let_def tp)
  with tp show ?thesis by (rule that)
qed

subsection \<open>Skipped steps, failures, the random source\<close>

text \<open>
  An index whose time step is not positive is never written: it keeps the 0 of
  \<^verbatim>\<open>np.zeros\<close>, in all three arrays.
\<close>

lemma skipped_index_stays_zero:
  assumes ok: "integrate pack drive sim tp cp = Inr a"
    and i: "1 \<le> i" "i < length tp"
    and dt: "tp ! i - tp ! (i - 1) \<le> 0"
  shows "soc_arr a ! i = 0 \<and> voltage_arr a ! i = 0 \<and> temperature_arr a ! i = 0"
proof -
  let ?cap = "capacity (cell pack) * of_int (parallelCount pack)"
  let ?init = "\<lparr>soc_arr = (replicate (length tp) 0)[0 := startingSoc drive],
                voltage_arr = (replicate (length tp) 0)
                  [0 := voltage (cell pack) * of_int (seriesCount pack)],
                temperature_arr = (replicate (length tp) 0)[0 := ambientTemp drive]\<rparr>"
  let ?f = "step pack drive sim tp cp ?cap"
  let ?b = "fold ?f [Suc 0..<i] ?init"
  have a: "a = fold ?f [Suc 0..<length tp] ?init"
    using ok by (rule integrate_Inr(2))
  have i': "Suc 0 \<le> i" using i(1) by simp
  have skip: "?f i ?b = ?b"
    using dt by (simp add: step_def)
  have fresh: "i \<notin> set [Suc 0..<i]" by simp
  have "soc_arr a ! i = soc_arr ?init ! i"
    and "voltage_arr a ! i = voltage_arr ?init ! i"
    and "temperature_arr a ! i = temperature_arr ?init ! i"
    unfolding a by (simp_all only: loop_at [OF i' i(2)] skip loop_other [OF fresh])
  then show ?thesis using i by simp
qed

text \<open>Whatever the body raises, the caller sees status 500.\<close>

lemma failure_status_is_500:
  "run_simulation rnd request = Inl e \<Longrightarrow> status_code e = Some 500"
  by (auto simp add: run_simulation_def split: sum.splits)

lemma aggregate_without_life:
  assumes "\<not> life_enabled (life sim)"
  shows "aggregate rnd1 pack drive sim tp cp a = aggregate rnd2 pack drive sim tp cp a"
  using assms by (simp add: aggregate_def Let_def)

lemma load_profile_replay:
  assumes "drive_type drive = ''upload''" and "truthy (csvData drive)"
  shows "load_profile rnd pack drive
           = Inr (map time_s (rows_of (csvData drive)), map current_a (rows_of (csvData drive)))"
  using assms by (simp add: load_profile_def)

text \<open>
  No response has an empty time series: an empty time axis fails at the first write into
  the arrays. A cycle of duration 0 fails before that, whatever the rest of the request is.
\<close>

lemma no_empty_response:
  assumes "run_simulation rnd request = Inr results"
  shows "timeSeries results \<noteq> []"
proof -
  from assms obtain tp cp a where
    lp: "load_profile rnd (packConfig request) (driveConfig request) = Inr (tp, cp)" and
    ig: "integrate (packConfig request) (driveConfig request) (simulationConfig request) tp cp
           = Inr a" and
    res: "results = aggregate rnd (packConfig request) (driveConfig request)
                 (simulationConfig request) tp cp a"
    by (rule run_simulation_Inr)
  note lens = load_profile_lengths [OF lp] integrate_lengths [OF ig]
  have "length (timeSeries results) = length tp"
    unfolding res using lens by (rule aggregate_timeSeries(1))
  moreover have "tp \<noteq> []" using ig by (rule integrate_Inr(1))
  ultimately show ?thesis by auto
qed

lemma zero_duration_always_fails:
  assumes "\<not> truthy (csvData (driveConfig request))"
    and "cycle (driveConfig request) = Some cyc" and "duration cyc = 0"
  shows "run_simulation rnd request = Inl (HTTPException 500 (Str ZeroDivisionError))"
  using assms
  by (simp add: run_simulation_def simulation_body_def load_profile_def synthetic_profile_def
        sample_count_def py_int_def linspace_def Let_def)

section \<open>The claims\<close>

text \<open>
  C1 (the code departs from it). Claim: at an index \<open>i \<ge> 1\<close> whose time step is not
  positive, state of charge, voltage and temperature equal their values at \<open>i - 1\<close>.
  The code skips the index and leaves the zeros the arrays were created with: for the upload
  \<open>[(0 s, 10 A), (0 s, 10 A)]\<close>, starting at 100 % and 25 degrees with the thermal model
  on, index 0 holds 100 %, 37 V and 25 degrees and index 1 holds 0, 0 and 0.
\<close>

theorem duplicate_timestamp_zeroes_state:
  "run_simulation fixed_random (replay_request [sample 0 10, sample 0 10] True False)
     = Inr \<lparr>summary = \<lparr>finalSoc = 0, consumedEnergy = 10, maxTemperature = 25,
                         efficiency = ''92.3'', stateOfHealth = None\<rparr>,
            timeSeries =
              [\<lparr>pt_time = 0, pt_soc = 100, pt_voltage = 37, pt_current = 10,
                pt_temperature = 25, pt_power = 37 / 100\<rparr>,
               \<lparr>pt_time = 0, pt_soc = 0, pt_voltage = 0, pt_current = 10,
                pt_temperature = 0, pt_power = 0\<rparr>]\<rparr>"
  by (simp add: endpoint_defs fixed_random_def replay_request_def replay_drive_def sample_def example_pack_def
        toggles_def)

text \<open>
  C2 (the code departs from it). Claim: a cycle of duration 0 gives a sample count of 0
  and the endpoint returns, without raising, an empty time series and a summary whose final
  state of charge is the starting one. The sample count is 0, but the endpoint does not
  return: the division of the energy by the duration
  raises \<^verbatim>\<open>ZeroDivisionError\<close>, and the caller gets status 500. The guards of the
  results stage for an empty series are never reached.
\<close>

theorem zero_duration_raises:
  "run_simulation fixed_random (cycle_request 0)
     = Inl (HTTPException 500 (Str ZeroDivisionError))"
  by (simp add: endpoint_defs fixed_random_def cycle_request_def cycle_drive_def example_pack_def
        toggles_def)

text \<open>
  C3 (the code departs from it). Claim: a request with neither samples nor a cycle fails
  with an error the caller can tell from a computation failure, a client-side error. The
  body raises status 400, the handler around it catches that exception with all others and
  raises status 500 in its place, with the first exception as text in the detail.
\<close>

theorem missing_source_reported_as_500:
  "run_simulation fixed_random no_source_request
     = Inl (HTTPException 500
              (Str (HTTPException 400 (Text ''Invalid drive cycle configuration.''))))"
  by (simp add: endpoint_defs fixed_random_def no_source_request_def example_pack_def toggles_def)

text \<open>
  C4 (the code departs from it). Claim: with the thermal model off, the temperature at
  every index is the ambient temperature. At an index whose time step is not positive the
  code writes nothing, so the temperature there is the 0 of the array's creation: for the
  upload \<open>[(0 s, 10 A), (1 s, 10 A), (1 s, 10 A)]\<close> at 25 degrees the temperatures are
  25, 25 and 0.
\<close>

theorem thermal_off_skipped_step_temperature:
  "(case run_simulation fixed_random
           (replay_request [sample 0 10, sample 1 10, sample 1 10] False False) of
      Inl e \<Rightarrow> None
    | Inr results \<Rightarrow> Some (map pt_temperature (timeSeries results)))
   = Some [25, 25, 0]"
  by (simp add: endpoint_defs fixed_random_def replay_request_def replay_drive_def sample_def example_pack_def
        toggles_def upt_rec)

text \<open>
  C5. When the starting state of charge is not negative, the state of charge of every
  point of the returned time series is not negative, whatever the currents are.
\<close>

theorem soc_never_negative:
  assumes "0 \<le> startingSoc (driveConfig request)"
    and "run_simulation rnd request = Inr results"
    and "i < length (timeSeries results)"
  shows "0 \<le> pt_soc (timeSeries results ! i)"
proof -
  from assms(2) obtain tp cp a where
    lp: "load_profile rnd (packConfig request) (driveConfig request) = Inr (tp, cp)" and
    ig: "integrate (packConfig request) (driveConfig request) (simulationConfig request) tp cp
           = Inr a" and
    res: "results = aggregate rnd (packConfig request) (driveConfig request)
                 (simulationConfig request) tp cp a"
    by (rule run_simulation_Inr)
  note lens = load_profile_lengths [OF lp] integrate_lengths [OF ig]
  have n: "i < length tp"
    using assms(3) unfolding res by (simp add: aggregate_timeSeries(1) [OF lens])
  have "pt_soc (timeSeries results ! i) = soc_arr a ! i"
    unfolding res by (simp add: aggregate_timeSeries(2) [OF lens n])
  moreover have "soc_arr a ! i \<in> set (soc_arr a)"
    using n lens by simp
  ultimately show ?thesis
    using integrate_nonneg [OF ig assms(1)] by simp
qed

theorem soc_never_negative_witness:
  "0 \<le> startingSoc (driveConfig (replay_request [sample 0 10, sample 3600 100] False False))
   \<and> run_simulation fixed_random (replay_request [sample 0 10, sample 3600 100] False False)
       = Inr drained_result
   \<and> 1 < length (timeSeries drained_result)
   \<and> pt_soc (timeSeries drained_result ! 1) = 0
   \<and> 0 \<le> pt_soc (timeSeries drained_result ! 1)"
  using soc_never_negative
    [of "replay_request [sample 0 10, sample 3600 100] False False" fixed_random
        drained_result 1]
  by (simp add: endpoint_defs fixed_random_def replay_request_def replay_drive_def sample_def example_pack_def
        toggles_def drained_result_def)

text \<open>
  C6. For an upload with at least one sample, the time axis and the current profile are
  the samples' timestamps and currents, in the order supplied: as many as there are
  samples, the \<open>k\<close>-th from the \<open>k\<close>-th sample.
\<close>

theorem replay_profile_is_input:
  assumes "drive_type drive = ''upload''" and "csvData drive = Some rows" and "rows \<noteq> []"
  shows "\<exists>time_points current_profile.
           load_profile rnd pack drive = Inr (time_points, current_profile)
           \<and> time_points = map time_s rows \<and> current_profile = map current_a rows
           \<and> length time_points = length rows \<and> length current_profile = length rows
           \<and> (\<forall>k<length rows. time_points ! k = time_s (rows ! k)
                                \<and> current_profile ! k = current_a (rows ! k))"
  using assms by (simp add: load_profile_def)

theorem replay_profile_is_input_witness:
  "drive_type (replay_drive [sample 0 10, sample 1 20, sample 1 30]) = ''upload''
   \<and> csvData (replay_drive [sample 0 10, sample 1 20, sample 1 30])
       = Some [sample 0 10, sample 1 20, sample 1 30]
   \<and> [sample 0 10, sample 1 20, sample 1 30] \<noteq> []
   \<and> load_profile other_random example_pack
        (replay_drive [sample 0 10, sample 1 20, sample 1 30])
       = Inr ([0, 1, 1], [10, 20, 30])"
  using replay_profile_is_input
    [of "replay_drive [sample 0 10, sample 1 20, sample 1 30]"
        "[sample 0 10, sample 1 20, sample 1 30]" other_random example_pack]
  by (simp add: other_random_def replay_drive_def sample_def example_pack_def)

text \<open>
  C7. At every index \<open>i \<ge> 1\<close> of the returned time series whose time step \<open>dt\<close> is
  positive, the state of charge is \<open>max 0 (soc[i-1] - (current[i] * dt / 3600) /
  total_capacity_ah * 100)\<close>, with no upper bound applied, and the voltage is
  \<open>(cell voltage * seriesCount) * (0.9 + 0.1 * soc[i] / 100) - current[i] * 0.05\<close>, where
  \<open>total_capacity_ah\<close> is the cell capacity times \<open>parallelCount\<close>, taken other
  than 0.
\<close>

theorem positive_step_recurrence:
  assumes "run_simulation rnd request = Inr results"
    and "1 \<le> i" and "i < length (timeSeries results)"
    and "0 < pt_time (timeSeries results ! i) - pt_time (timeSeries results ! (i - 1))"
    and "capacity (cell (packConfig request)) * of_int (parallelCount (packConfig request)) \<noteq> 0"
  shows "pt_soc (timeSeries results ! i)
           = max 0 (pt_soc (timeSeries results ! (i - 1))
               - (pt_current (timeSeries results ! i)
                    * (pt_time (timeSeries results ! i) - pt_time (timeSeries results ! (i - 1)))
                    / 3600)
                   / (capacity (cell (packConfig request))
                        * of_int (parallelCount (packConfig request))) * 100)
         \<and> pt_voltage (timeSeries results ! i)
           = (voltage (cell (packConfig request)) * of_int (seriesCount (packConfig request)))
               * (0.9 + 0.1 * (pt_soc (timeSeries results ! i) / 100))
             - pt_current (timeSeries results ! i) * 0.05"
proof -
  from assms(1) obtain tp cp a where
    lp: "load_profile rnd (packConfig request) (driveConfig request) = Inr (tp, cp)" and
    ig: "integrate (packConfig request) (driveConfig request) (simulationConfig request) tp cp
           = Inr a" and
    res: "results = aggregate rnd (packConfig request) (driveConfig request)
                 (simulationConfig request) tp cp a"
    by (rule run_simulation_Inr)
  note lens = load_profile_lengths [OF lp] integrate_lengths [OF ig]
  have n: "i < length tp"
    using assms(3) unfolding res by (simp add: aggregate_timeSeries(1) [OF lens])
  then have m: "i - 1 < length tp" by simp
  have at_i: "timeSeries results ! i
          = \<lparr>pt_time = tp ! i, pt_soc = soc_arr a ! i, pt_voltage = voltage_arr a ! i,
             pt_current = cp ! i, pt_temperature = temperature_arr a ! i,
             pt_power = (voltage_arr a ! i * cp ! i) / 1000\<rparr>"
    unfolding res using lens n by (rule aggregate_timeSeries(2))
  have at_m: "timeSeries results ! (i - 1)
          = \<lparr>pt_time = tp ! (i - 1), pt_soc = soc_arr a ! (i - 1),
             pt_voltage = voltage_arr a ! (i - 1),
             pt_current = cp ! (i - 1), pt_temperature = temperature_arr a ! (i - 1),
             pt_power = (voltage_arr a ! (i - 1) * cp ! (i - 1)) / 1000\<rparr>"
    unfolding res using lens m by (rule aggregate_timeSeries(2))
  have dt: "0 < tp ! i - tp ! (i - 1)"
    using assms(4) unfolding at_i at_m by simp
  have "pt_soc (timeSeries results ! i)
           = max 0 (pt_soc (timeSeries results ! (i - 1))
               - (pt_current (timeSeries results ! i)
                    * (pt_time (timeSeries results ! i) - pt_time (timeSeries results ! (i - 1)))
                    / 3600)
                   / (capacity (cell (packConfig request))
                        * of_int (parallelCount (packConfig request))) * 100)"
    unfolding at_i at_m using integrate_recurrence(1) [OF ig assms(2) n dt] by simp
  moreover have "pt_voltage (timeSeries results ! i)
           = (voltage (cell (packConfig request)) * of_int (seriesCount (packConfig request)))
               * (0.9 + 0.1 * (pt_soc (timeSeries results ! i) / 100))
             - pt_current (timeSeries results ! i) * 0.05"
    unfolding at_i using integrate_recurrence(2) [OF ig assms(2) n dt] by simp
  ultimately show ?thesis by (rule conjI)
qed

theorem positive_step_recurrence_witness:
  "run_simulation fixed_random (replay_request [sample 0 10, sample 36 10] False False)
     = Inr (gentle_result None)
   \<and> (1::nat) \<le> 1 \<and> 1 < length (timeSeries (gentle_result None))
   \<and> capacity (cell (packConfig (replay_request [sample 0 10, sample 36 10] False False)))
       * of_int (parallelCount (packConfig
           (replay_request [sample 0 10, sample 36 10] False False))) = 20
   \<and> 0 < pt_time (timeSeries (gentle_result None) ! 1)
         - pt_time (timeSeries (gentle_result None) ! (1 - 1))
   \<and> pt_soc (timeSeries (gentle_result None) ! 1) = 99.5
   \<and> pt_soc (timeSeries (gentle_result None) ! 1)
       = max 0 (100 - (10 * (36 - 0) / 3600) / (5 * 4) * 100)
   \<and> pt_voltage (timeSeries (gentle_result None) ! 1) = 36.4815
   \<and> pt_voltage (timeSeries (gentle_result None) ! 1)
       = (3.7 * 10) * (0.9 + 0.1 * (99.5 / 100)) - 10 * 0.05"
  using positive_step_recurrence
    [of fixed_random "replay_request [sample 0 10, sample 36 10] False False"
        "gentle_result None" 1]
  by (simp add: endpoint_defs fixed_random_def replay_request_def replay_drive_def sample_def example_pack_def
        toggles_def gentle_result_def)

text \<open>
  C8. The summary of a response has a state of health exactly when the life toggle is
  on; it is then 99.5 minus half of the draw of \<^verbatim>\<open>np.random.rand()\<close>, and half of a
  draw from \<open>[0, 1)\<close> lies in \<open>[0, 0.5)\<close>; with the toggle off the field is \<open>None\<close>.
\<close>

theorem state_of_health_follows_toggle:
  assumes "run_simulation rnd request = Inr results"
    and "0 \<le> rand_draw rnd" and "rand_draw rnd < 1"
  shows "(stateOfHealth (summary results) \<noteq> None)
           = life_enabled (life (simulationConfig request))
         \<and> stateOfHealth (summary results)
           = (if life_enabled (life (simulationConfig request))
              then Some (99.5 - rand_draw rnd * 0.5) else None)
         \<and> 0 \<le> rand_draw rnd * 0.5 \<and> rand_draw rnd * 0.5 < 0.5"
proof -
  from assms(1) obtain tp cp a where
    res: "results = aggregate rnd (packConfig request) (driveConfig request)
                 (simulationConfig request) tp cp a"
    by (rule run_simulation_Inr)
  have "stateOfHealth (summary results)
           = (if life_enabled (life (simulationConfig request))
              then Some (99.5 - rand_draw rnd * 0.5) else None)"
    unfolding res by (simp add: aggregate_def Let_def)
  then show ?thesis using assms(2,3) by simp
qed

theorem state_of_health_follows_toggle_witness:
  "run_simulation other_random (replay_request [sample 0 10, sample 36 10] False True)
     = Inr (gentle_result (Some 99.25))
   \<and> 0 \<le> rand_draw other_random \<and> rand_draw other_random < 1
   \<and> life_enabled (life (simulationConfig
        (replay_request [sample 0 10, sample 36 10] False True)))
   \<and> stateOfHealth (summary (gentle_result (Some 99.25)))
       = Some (99.5 - rand_draw other_random * 0.5)
   \<and> stateOfHealth (summary (gentle_result (Some 99.25))) \<noteq> None"
  using state_of_health_follows_toggle
    [of other_random "replay_request [sample 0 10, sample 36 10] False True"
        "gentle_result (Some 99.25)"]
  by (simp add: endpoint_defs other_random_def replay_request_def replay_drive_def sample_def
        example_pack_def toggles_def gentle_result_def)

text \<open>
  C9 (amended). For a cycle of duration at least 1 and no samples, the profile has
  \<open>n = floor (duration / 2)\<close> samples. With \<open>n \<ge> 2\<close> the \<open>k\<close>-th time is
  \<open>k * duration / (n - 1)\<close>, evenly spaced from 0 to the duration inclusive; a single
  sample is at time 0. The \<open>k\<close>-th current is \<open>totalEnergy * 10 / duration\<close> plus
  the \<open>k\<close>-th noise draw plus \<open>20 * sin (time / 60)\<close>.
\<close>

theorem synthetic_profile_shape:
  assumes "\<not> truthy (csvData drive)" and "cycle drive = Some cyc" and "1 \<le> duration cyc"
  shows "\<exists>time_points current_profile.
           load_profile rnd pack drive = Inr (time_points, current_profile)
           \<and> int (length time_points) = \<lfloor>real_of_int (duration cyc) / 2\<rfloor>
           \<and> length current_profile = length time_points
           \<and> (\<forall>k<length time_points.
                 time_points ! k
                   = (if length time_points = 1 then 0
                      else real k * (real_of_int (duration cyc)
                                       / real (length time_points - 1)))
               \<and> current_profile ! k
                   = (totalEnergy pack * 10) / real_of_int (duration cyc)
                     + normal_draw rnd k + 20 * sin (time_points ! k / 60))"
proof -
  let ?n = "sample_count (duration cyc)"
  obtain tp where
    tp: "linspace 0 (of_int (duration cyc)) ?n = Inr tp" and
    sp: "synthetic_profile rnd pack cyc
       = Inr (tp, map2 (+) (map (\<lambda>n. (totalEnergy pack * 10) / of_int (duration cyc) + n)
                              (map (normal_draw rnd) [0..<nat ?n]))
                      (map (\<lambda>t. 20 * sin (t / 60)) tp))"
    using assms(3) by (rule synthetic_profile_Inr)
  let ?cp = "map2 (+) (map (\<lambda>n. (totalEnergy pack * 10) / of_int (duration cyc) + n)
                              (map (normal_draw rnd) [0..<nat ?n]))
                      (map (\<lambda>t. 20 * sin (t / 60)) tp)"
  have n0: "0 \<le> ?n" using assms(3) by (simp add: sample_count_nonneg(1))
  have len: "length tp = nat ?n" using tp by (rule linspace_length)
  have lp: "load_profile rnd pack drive = Inr (tp, ?cp)"
    using assms(1,2) sp by (simp add: load_profile_def)
  have count: "int (length tp) = \<lfloor>real_of_int (duration cyc) / 2\<rfloor>"
    using n0 assms(3) by (simp add: len sample_count_nonneg(2))
  have lcp: "length ?cp = length tp" by (simp add: len)
  have pts: "tp ! k = (if length tp = 1 then 0
                       else real k * (real_of_int (duration cyc) / real (length tp - 1)))"
    if "k < length tp" for k
  proof -
    have k: "k < nat ?n" using that len by simp
    have one: "(?n = 1) = (length tp = 1)" using n0 len by auto
    have "real (length tp - 1) = real_of_int (?n - 1)" if "length tp \<noteq> 1"
      using that k len by auto
    then show ?thesis
      using linspace_nth [OF tp k] one by auto
  qed
  have cur: "?cp ! k = (totalEnergy pack * 10) / real_of_int (duration cyc)
                            + normal_draw rnd k + 20 * sin (tp ! k / 60)"
    if "k < length tp" for k
    using that len by simp
  show ?thesis
    using lp count lcp pts cur by blast
qed


theorem synthetic_profile_shape_witness:
  "\<not> truthy (csvData (cycle_drive 4))
   \<and> cycle (cycle_drive 4) = Some \<lparr>cycle_id = ''u'', cycle_name = ''urban'', duration = 4\<rparr>
   \<and> 1 \<le> duration \<lparr>cycle_id = ''u'', cycle_name = ''urban'', duration = 4\<rparr>
   \<and> load_profile other_random example_pack (cycle_drive 4)
        = Inr ([0, 4], [32, 32 + 20 * sin (1 / 15)])"
  using synthetic_profile_shape
    [of "cycle_drive 4" "\<lparr>cycle_id = ''u'', cycle_name = ''urban'', duration = 4\<rparr>"
        other_random example_pack]
  by (simp add: endpoint_defs other_random_def cycle_drive_def example_pack_def upt_rec)

text \<open>
  The claim as stated fails for a cycle of 2 seconds: the one sample is at time 0, and
  the time axis does not reach the duration.
\<close>

theorem short_cycle_single_sample:
  "load_profile fixed_random example_pack (cycle_drive 2) = Inr ([0], [50])"
  by (simp add: endpoint_defs fixed_random_def cycle_drive_def example_pack_def)

text \<open>
  C10. For an upload with at least one sample and the life toggle off, the outcome of
  the endpoint, response or failure, is the same under any two random sources.
\<close>

theorem replay_without_life_deterministic:
  assumes "drive_type (driveConfig request) = ''upload''"
    and "truthy (csvData (driveConfig request))"
    and "\<not> life_enabled (life (simulationConfig request))"
  shows "run_simulation rnd1 request = run_simulation rnd2 request"
proof -
  have "simulation_body rnd1 request = simulation_body rnd2 request"
    unfolding simulation_body_def Let_def load_profile_replay [OF assms(1,2)]
    by (simp add: aggregate_without_life [OF assms(3), of rnd1 _ _ _ _ _ rnd2]
          split: sum.splits)
  then show ?thesis by (simp add: run_simulation_def)
qed


theorem replay_without_life_deterministic_witness:
  "drive_type (driveConfig (replay_request [sample 0 10, sample 36 10] True False)) = ''upload''
   \<and> truthy (csvData (driveConfig (replay_request [sample 0 10, sample 36 10] True False)))
   \<and> \<not> life_enabled (life (simulationConfig
          (replay_request [sample 0 10, sample 36 10] True False)))
   \<and> run_simulation fixed_random (replay_request [sample 0 10, sample 36 10] True False)
       = run_simulation other_random (replay_request [sample 0 10, sample 36 10] True False)"
  using replay_without_life_deterministic
    [of "replay_request [sample 0 10, sample 36 10] True False" fixed_random other_random]
  by (simp add: replay_request_def replay_drive_def sample_def toggles_def)

end
